theory Spec2Isabelle
  imports Complex_Main
begin

section \<open>JavaScript values\<close>

text \<open>
  The view state of \<^verbatim>\<open>index.tsx\<close> holds what \<^verbatim>\<open>JSON.parse\<close> and \<^verbatim>\<open>res.json()\<close>
  return, cast to a TypeScript type without any run-time check. The model therefore keeps
  such state as an untyped JavaScript value. Numbers are modelled by their value; an
  object is the list of its own properties.
\<close>

datatype js =
    JUndefined
  | JNull
  | JBool bool
  | JNum real
  | JStr string
  | JArr "js list"
  | JObj "(string \<times> js) list"

text \<open>JavaScript truthiness, as used by \<^verbatim>\<open>!x\<close>, \<^verbatim>\<open>x && y\<close> and \<^verbatim>\<open>x ? a : b\<close>.\<close>

fun truthy :: "js \<Rightarrow> bool" where
  "truthy JUndefined = False"
| "truthy JNull = False"
| "truthy (JBool b) = b"
| "truthy (JNum n) = (n \<noteq> 0)"
| "truthy (JStr s) = (s \<noteq> [])"
| "truthy (JArr xs) = True"
| "truthy (JObj kvs) = True"

text \<open>
  Property read \<^verbatim>\<open>v.k\<close> for the data keys the program reads. A key that is absent reads
  as \<^verbatim>\<open>undefined\<close>; reading a property of \<^verbatim>\<open>null\<close> or \<^verbatim>\<open>undefined\<close> throws a
  TypeError, which the callers below handle before they call \<open>get_prop\<close>.
\<close>

fun get_prop :: "js \<Rightarrow> string \<Rightarrow> js" where
  "get_prop (JObj kvs) k = (case map_of kvs k of None \<Rightarrow> JUndefined | Some v \<Rightarrow> v)"
| "get_prop v k = JUndefined"

datatype js_error = Error string | TypeError | SyntaxError | ApiError

section \<open>Strings\<close>

text \<open>\<^verbatim>\<open>String.prototype.endsWith\<close>.\<close>

definition endsWith :: "string \<Rightarrow> string \<Rightarrow> bool" where
  "endsWith s x = (length x \<le> length s \<and> drop (length s - length x) s = x)"

text \<open>
  \<^verbatim>\<open>String.prototype.split\<close> with a one-character separator: the pieces between the
  separators, the empty string giving one empty piece.
\<close>

fun js_split :: "char \<Rightarrow> string \<Rightarrow> string list" where
  "js_split c [] = [[]]"
| "js_split c (x # xs) =
     (if x = c then [] # js_split c xs
      else (case js_split c xs of [] \<Rightarrow> [[x]] | p # ps \<Rightarrow> (x # p) # ps))"

text \<open>Array read \<^verbatim>\<open>xs[i]\<close>: \<^verbatim>\<open>undefined\<close> (here \<open>None\<close>) out of range.\<close>

definition at_index :: "'a list \<Rightarrow> nat \<Rightarrow> 'a option" where
  "at_index xs i = (if i < length xs then Some (xs ! i) else None)"

section \<open>Files and the file reader\<close>

text \<open>
  A \<^verbatim>\<open>File\<close> as \<^verbatim>\<open>processFile\<close> sees it: its name, its declared type (empty when the
  browser knows none), and what the host's \<^verbatim>\<open>FileReader\<close> delivers for it:
  \<open>file_text\<close> is the decoded text that \<^verbatim>\<open>readAsText\<close> yields, \<open>file_base64\<close> the
  base64 encoding of the bytes that \<^verbatim>\<open>readAsDataURL\<close> puts after the data-URL header
  \<^verbatim>\<open>data:<type>;base64,\<close> (browsers write \<^verbatim>\<open>application/octet-stream\<close> there for a
  file with no declared type). When the file cannot be read, \<^verbatim>\<open>onload\<close> never fires.
\<close>

record file_object =
  file_name :: string
  file_type :: string
  file_text :: string
  file_base64 :: string
  readable :: bool

definition readAsText :: "file_object \<Rightarrow> string option" where
  "readAsText f = (if readable f then Some (file_text f) else None)"

definition readAsDataURL :: "file_object \<Rightarrow> string option" where
  "readAsDataURL f =
     (if readable f
      then Some (''data:''
                 @ (if file_type f = [] then ''application/octet-stream'' else file_type f)
                 @ '';base64,'' @ file_base64 f)
      else None)"

text \<open>
  \<^verbatim>\<open>processFile\<close> of \<^verbatim>\<open>FileDropZone\<close>: the arguments \<open>(content, name, mimeType)\<close> with
  which \<^verbatim>\<open>onFileLoaded\<close> is called, or \<open>None\<close> when the read fails and nothing is called.
\<close>

definition processFile :: "file_object \<Rightarrow> (string \<times> string \<times> string) option" where
  "processFile f =
     (let isText = (endsWith (file_name f) ''.eml'' \<or> endsWith (file_name f) ''.txt''
                    \<or> file_type f = ''text/plain'');
          mimeType = (if file_type f \<noteq> [] then file_type f
                      else if isText then ''text/plain'' else ''application/octet-stream'')
      in map_option (\<lambda>result. (result, file_name f, mimeType))
           (if isText then readAsText f else readAsDataURL f))"

section \<open>Application state\<close>

text \<open>The eight \<^verbatim>\<open>useState\<close> cells of \<^verbatim>\<open>App\<close>.\<close>

record app_state =
  fileContent :: "string option"
  fileMimeType :: "string option"
  fileName :: "string option"
  analysis :: js
  isLoading :: bool
  error :: "string option"
  isAnalystMode :: bool
  showQuiz :: bool

definition App_init :: app_state where
  "App_init = \<lparr> fileContent = None, fileMimeType = None, fileName = None,
                analysis = JNull, isLoading = False, error = None,
                isAnalystMode = False, showQuiz = False \<rparr>"

definition handleFileLoaded :: "string \<Rightarrow> string \<Rightarrow> string \<Rightarrow> app_state \<Rightarrow> app_state" where
  "handleFileLoaded content name mimeType s =
     s\<lparr> fileContent := Some content, fileName := Some name, fileMimeType := Some mimeType,
        analysis := JNull, error := None \<rparr>"

text \<open>Dropping or choosing a file: \<^verbatim>\<open>processFile\<close>, then the \<^verbatim>\<open>onFileLoaded\<close> callback.\<close>

definition upload :: "file_object \<Rightarrow> app_state \<Rightarrow> app_state" where
  "upload f s =
     (case processFile f of
        None \<Rightarrow> s
      | Some (content, name, mimeType) \<Rightarrow> handleFileLoaded content name mimeType s)"

text \<open>The click handler of the button "Analyze Another File".\<close>

definition reset :: "app_state \<Rightarrow> app_state" where
  "reset s = s\<lparr> analysis := JNull, fileContent := None, fileName := None \<rparr>"

section \<open>The analysis request\<close>

text \<open>
  The \<^verbatim>\<open>contents\<close> of the request: the file content as text, or one inline-data part
  with a MIME type and the data (\<open>None\<close> for \<^verbatim>\<open>undefined\<close>).
\<close>

datatype payload = TextContents string | InlineData string "string option"

definition contentsPayload :: "string \<Rightarrow> string option \<Rightarrow> payload" where
  "contentsPayload content mimeType =
     (case mimeType of
        None \<Rightarrow> TextContents content
      | Some m \<Rightarrow>
          if m \<noteq> [] \<and> m \<noteq> ''text/plain'' \<and> m \<noteq> ''message/rfc822''
          then InlineData m (at_index (js_split CHR '','' content) 1)
          else TextContents content)"

text \<open>
  The request that \<^verbatim>\<open>analyzeEmail\<close> issues in a state: none when the file content is
  null or empty (the early return).
\<close>

definition submitted :: "app_state \<Rightarrow> payload option" where
  "submitted s =
     (case fileContent s of
        None \<Rightarrow> None
      | Some content \<Rightarrow>
          if content = [] then None else Some (contentsPayload content (fileMimeType s)))"

text \<open>
  What the model service does with a request: the call is rejected, or it resolves with a
  response whose \<^verbatim>\<open>text\<close> is absent or a string.
\<close>

datatype reply = Rejected | Replied "string option"

text \<open>
  The body of the \<^verbatim>\<open>try\<close> block after the call: the value handed to \<^verbatim>\<open>setAnalysis\<close>,
  or what is thrown. \<open>parse\<close> is the host's \<^verbatim>\<open>JSON.parse\<close>, \<open>None\<close> where it throws.
\<close>

definition parse_reply :: "(string \<Rightarrow> js option) \<Rightarrow> reply \<Rightarrow> js_error + js" where
  "parse_reply parse r =
     (case r of
        Rejected \<Rightarrow> Inl ApiError
      | Replied None \<Rightarrow> Inl (Error ''Empty response from AI.'')
      | Replied (Some text) \<Rightarrow>
          if text = [] then Inl (Error ''Empty response from AI.'')
          else (case parse text of None \<Rightarrow> Inl SyntaxError | Some v \<Rightarrow> Inr v))"

text \<open>
  \<^verbatim>\<open>analyzeEmail\<close>, from the click to the end of its \<^verbatim>\<open>finally\<close> block. The setters
  assign fixed values, so the state after the handler is the state with the assignments
  applied in order. What \<^verbatim>\<open>catch\<close> writes to the console is not part of the state.
\<close>

definition analysis_failed :: string where
  "analysis_failed = ''Analysis failed. Please check your API key or file format.''"

definition analyzeEmail ::
  "(string \<Rightarrow> js option) \<Rightarrow> (payload \<Rightarrow> reply) \<Rightarrow> app_state \<Rightarrow> app_state" where
  "analyzeEmail parse generateContent s =
     (case submitted s of
        None \<Rightarrow> s\<lparr> error := Some ''No file content detected.'' \<rparr>
      | Some contents \<Rightarrow>
          let s1 = s\<lparr> isLoading := True, error := None, analysis := JNull \<rparr>;
              s2 = (case parse_reply parse (generateContent contents) of
                      Inr v \<Rightarrow> s1\<lparr> analysis := v \<rparr>
                    | Inl err \<Rightarrow> s1\<lparr> error := Some analysis_failed \<rparr>)
          in s2\<lparr> isLoading := False \<rparr>)"

text \<open>
  Where the page lets the user start \<^verbatim>\<open>analyzeEmail\<close>: the button "Run Analysis" is
  rendered inside \<^verbatim>\<open>{!analysis && ...}\<close> and \<^verbatim>\<open>{fileContent && ...}\<close>, and it is disabled
  while a call is in flight.
\<close>

definition run_analysis_offered :: "app_state \<Rightarrow> bool" where
  "run_analysis_offered s =
     (\<not> truthy (analysis s)
      \<and> (case fileContent s of None \<Rightarrow> False | Some content \<Rightarrow> content \<noteq> [])
      \<and> \<not> isLoading s)"

section \<open>The response schema\<close>

text \<open>
  The schema objects that the program hands to the model service as \<^verbatim>\<open>responseSchema\<close>:
  a type, with the \<^verbatim>\<open>enum\<close> of a string (empty when there is none), the \<^verbatim>\<open>items\<close> of an
  array, and the \<^verbatim>\<open>properties\<close> and \<^verbatim>\<open>required\<close> keys of an object. Descriptions are
  left out.
\<close>

datatype schema =
    STRING "string list"
  | INTEGER
  | BOOLEAN
  | ARRAY schema
  | OBJECT "(string \<times> schema) list" "string list"

definition analysisSchema :: schema where
  "analysisSchema =
     OBJECT
       [(''verdict'', STRING [''Clean'', ''Suspicious'', ''Malicious'']),
        (''confidence_score'', INTEGER),
        (''simple_analysis'', OBJECT [(''explanation'', STRING [])] []),
        (''recommendations'',
           OBJECT [(''do'', ARRAY (STRING [])), (''dont'', ARRAY (STRING []))] []),
        (''expert_analysis'',
           OBJECT [(''technical_summary'', STRING []),
                   (''mitre_attack_ids'', ARRAY (STRING [])),
                   (''spf_dkim_dmarc_status'', STRING [])] []),
        (''sender_metadata'',
           OBJECT [(''ip_address'', STRING []),
                   (''estimated_country'', STRING []),
                   (''is_vpn_or_proxy'', BOOLEAN)] []),
        (''headers'',
           OBJECT [(''from'', STRING []), (''return_path'', STRING []),
                   (''subject'', STRING [])] []),
        (''red_flags'', ARRAY (STRING [])),
        (''attacker_replication_code'', STRING [])]
       [''verdict'', ''confidence_score'', ''simple_analysis'', ''recommendations'',
        ''expert_analysis'', ''sender_metadata'', ''headers'', ''red_flags'',
        ''attacker_replication_code'']"

text \<open>
  A value matches a schema when it has the schema's type, a string is one of the
  enumerated ones, every item of an array matches, every required key of an object is
  present and every declared property that is present matches.
\<close>

fun conforms :: "schema \<Rightarrow> js \<Rightarrow> bool" where
  "conforms (STRING enum) v =
     (case v of JStr s \<Rightarrow> enum = [] \<or> s \<in> set enum | _ \<Rightarrow> False)"
| "conforms INTEGER v = (case v of JNum n \<Rightarrow> n \<in> \<int> | _ \<Rightarrow> False)"
| "conforms BOOLEAN v = (case v of JBool b \<Rightarrow> True | _ \<Rightarrow> False)"
| "conforms (ARRAY items) v =
     (case v of JArr xs \<Rightarrow> list_all (conforms items) xs | _ \<Rightarrow> False)"
| "conforms (OBJECT properties required) v =
     (case v of
        JObj kvs \<Rightarrow>
          list_all (\<lambda>k. map_of kvs k \<noteq> None) required
          \<and> list_all (\<lambda>(k, sch). case map_of kvs k of None \<Rightarrow> True | Some x \<Rightarrow> conforms sch x)
               properties
      | _ \<Rightarrow> False)"

section \<open>The quiz\<close>

text \<open>
  The four \<^verbatim>\<open>useState\<close> cells of \<^verbatim>\<open>QuizModal\<close>. The score starts at 0 and only ever
  grows by one per round; it is a JavaScript number, which counts exactly far beyond any
  number of rounds a session plays, and is modelled as a natural number.
\<close>

datatype round_result = Correct | Wrong

record quiz_state =
  quizData :: js
  quiz_loading :: bool
  result :: "round_result option"
  score :: nat

definition QuizModal_init :: quiz_state where
  "QuizModal_init = \<lparr> quizData = JNull, quiz_loading = True, result = None, score = 0 \<rparr>"

definition loadQuestion :: "(string \<Rightarrow> js option) \<Rightarrow> reply \<Rightarrow> quiz_state \<Rightarrow> quiz_state" where
  "loadQuestion parse r q =
     (let q1 = q\<lparr> quiz_loading := True, result := None, quizData := JNull \<rparr>;
          q2 = (case r of
                  Rejected \<Rightarrow> q1
                | Replied None \<Rightarrow> q1
                | Replied (Some text) \<Rightarrow>
                    if text = [] then q1
                    else (case parse text of None \<Rightarrow> q1 | Some v \<Rightarrow> q1\<lparr> quizData := v \<rparr>))
      in q2\<lparr> quiz_loading := False \<rparr>)"

text \<open>
  \<^verbatim>\<open>handleGuess\<close>: \<^verbatim>\<open>===\<close> between the boolean guess and whatever the scenario holds
  under \<^verbatim>\<open>is_phishing\<close> is true exactly for that same boolean.
\<close>

definition handleGuess :: "bool \<Rightarrow> quiz_state \<Rightarrow> quiz_state" where
  "handleGuess isPhishingGuess q =
     (if \<not> truthy (quizData q) then q
      else
        let isCorrect = (JBool isPhishingGuess = get_prop (quizData q) ''is_phishing'');
            q1 = q\<lparr> result := Some (if isCorrect then Correct else Wrong) \<rparr>
        in if isCorrect then q1\<lparr> score := score q1 + 1 \<rparr> else q1)"

section \<open>The threat map\<close>

text \<open>
  What the geolocation service does with a lookup: \<^verbatim>\<open>fetch\<close> rejects, or it resolves
  with a response that has the flag \<^verbatim>\<open>ok\<close> and a body, \<open>None\<close> when \<^verbatim>\<open>res.json()\<close>
  rejects because the body is not JSON.
\<close>

datatype fetch_outcome = NetworkError | HttpResponse bool "js option"

text \<open>The two \<^verbatim>\<open>useState\<close> cells of \<^verbatim>\<open>ThreatMap\<close>.\<close>

record threat_map_state =
  geoData :: js
  geo_loading :: bool

definition ThreatMap_init :: threat_map_state where
  "ThreatMap_init = \<lparr> geoData = JNull, geo_loading = False \<rparr>"

text \<open>
  The page: the state of \<^verbatim>\<open>App\<close>, the state of the \<^verbatim>\<open>ThreatMap\<close> mounted in its
  analyst view, the lines written with \<^verbatim>\<open>console.error\<close> and the URLs fetched.
\<close>

record page =
  app :: app_state
  threat_map :: threat_map_state
  console :: "(string \<times> js_error) list"
  fetched :: "string list"

text \<open>The body of the \<^verbatim>\<open>try\<close> block of \<^verbatim>\<open>fetchGeo\<close>: the new state, or what is thrown.\<close>

definition fetchGeo_try :: "fetch_outcome \<Rightarrow> threat_map_state \<Rightarrow> js_error + threat_map_state" where
  "fetchGeo_try outcome t =
     (case outcome of
        NetworkError \<Rightarrow> Inl TypeError
      | HttpResponse ok body \<Rightarrow>
          if \<not> ok then Inl (Error ''Failed to fetch'')
          else (case body of
                  None \<Rightarrow> Inl SyntaxError
                | Some data \<Rightarrow>
                    if data = JNull \<or> data = JUndefined then Inl TypeError
                    else if truthy (get_prop data ''latitude'')
                            \<and> truthy (get_prop data ''longitude'')
                         then Inr (t\<lparr> geoData := data \<rparr>)
                         else Inr t))"

definition fetchGeo :: "(string \<Rightarrow> fetch_outcome) \<Rightarrow> string \<Rightarrow> page \<Rightarrow> page" where
  "fetchGeo fetch ip p =
     (let url = ''https://ipapi.co/'' @ ip @ ''/json/'';
          t1 = (threat_map p)\<lparr> geo_loading := True \<rparr>;
          p1 = p\<lparr> fetched := fetched p @ [url] \<rparr>;
          p2 = (case fetchGeo_try (fetch url) t1 of
                  Inr t2 \<Rightarrow> p1\<lparr> threat_map := t2 \<rparr>
                | Inl e \<Rightarrow> p1\<lparr> threat_map := t1,
                                console := console p1 @ [(''Geo fetch failed'', e)] \<rparr>)
      in p2\<lparr> threat_map := (threat_map p2)\<lparr> geo_loading := False \<rparr> \<rparr>)"

text \<open>The effect of \<^verbatim>\<open>ThreatMap\<close>, run at mount and whenever \<^verbatim>\<open>ip\<close> changes.\<close>

definition ThreatMap_effect :: "(string \<Rightarrow> fetch_outcome) \<Rightarrow> string \<Rightarrow> page \<Rightarrow> page" where
  "ThreatMap_effect fetch ip p =
     (if ip = [] \<or> ip = ''N/A'' \<or> ip = ''127.0.0.1'' then p else fetchGeo fetch ip p)"

text \<open>What the map is given: \<^verbatim>\<open>center\<close> and \<^verbatim>\<open>zoom\<close>.\<close>

definition center :: "threat_map_state \<Rightarrow> js \<times> js" where
  "center t =
     (if truthy (geoData t)
      then (get_prop (geoData t) ''latitude'', get_prop (geoData t) ''longitude'')
      else (JNum 20, JNum 0))"

definition zoom :: "threat_map_state \<Rightarrow> nat" where
  "zoom t = (if truthy (geoData t) then 10 else 2)"

section \<open>Failure of a lookup, failure of a reply\<close>

text \<open>A reply with no text: \<^verbatim>\<open>response.text\<close> is absent or the empty string.\<close>

definition reply_empty :: "reply \<Rightarrow> bool" where
  "reply_empty r = (r = Replied None \<or> r = Replied (Some []))"

text \<open>A reply with a text on which \<^verbatim>\<open>JSON.parse\<close> throws.\<close>

definition reply_malformed :: "(string \<Rightarrow> js option) \<Rightarrow> reply \<Rightarrow> bool" where
  "reply_malformed parse r =
     (case r of Replied (Some text) \<Rightarrow> text \<noteq> [] \<and> parse text = None | _ \<Rightarrow> False)"

text \<open>
  A lookup on which the \<^verbatim>\<open>try\<close> block throws: \<^verbatim>\<open>fetch\<close> rejects, the response is not
  ok, \<^verbatim>\<open>res.json()\<close> rejects because the body is not JSON, or the body is \<^verbatim>\<open>null\<close>, so
  that reading its latitude throws (a body is never \<^verbatim>\<open>undefined\<close>; the value type has
  it, and the read would throw on it as well).
\<close>

definition lookup_throws :: "fetch_outcome \<Rightarrow> bool" where
  "lookup_throws outcome =
     (case outcome of
        NetworkError \<Rightarrow> True
      | HttpResponse ok body \<Rightarrow>
          \<not> ok \<or> body = None \<or> body = Some JNull \<or> body = Some JUndefined)"

text \<open>
  A lookup that fails, that is, gives the map no location: the network rejects it, the
  response is not ok, or its body is unusable: it is not JSON, or it is a JSON value that
  does not hold both a truthy latitude and a truthy longitude (the service's error
  objects, \<^verbatim>\<open>null\<close>, a string, an empty object).
\<close>

definition lookup_fails :: "fetch_outcome \<Rightarrow> bool" where
  "lookup_fails outcome =
     (case outcome of
        NetworkError \<Rightarrow> True
      | HttpResponse ok body \<Rightarrow>
          \<not> ok
          \<or> (case body of
                None \<Rightarrow> True
              | Some data \<Rightarrow>
                  \<not> (truthy (get_prop data ''latitude'')
                      \<and> truthy (get_prop data ''longitude''))))"

text \<open>
  Mounting the map: its cells take their initial values and the effect runs for the first
  time.
\<close>

definition ThreatMap_mount :: "(string \<Rightarrow> fetch_outcome) \<Rightarrow> string \<Rightarrow> page \<Rightarrow> page" where
  "ThreatMap_mount fetch ip p = ThreatMap_effect fetch ip (p\<lparr> threat_map := ThreatMap_init \<rparr>)"

text \<open>The characters of base64 text.\<close>

definition base64_text :: "string \<Rightarrow> bool" where
  "base64_text s =
     list_all (\<lambda>c. c \<in> set ''ABCDEFGHIJKLMNOPQRSTUVWXYZabcdefghijklmnopqrstuvwxyz0123456789+/='') s"

text \<open>
  The declared type of a file that the browser takes from disk, by drop or by the file
  chooser. The browser derives \<^verbatim>\<open>File.type\<close> from the extension of the name: it is empty
  or a MIME type \<^verbatim>\<open>type/subtype\<close> written with token characters, and a name that ends in
  \<^verbatim>\<open>.eml\<close> or \<^verbatim>\<open>.txt\<close> is declared as a message, as plain text, or not at all.
\<close>

definition mime_token_char :: "char \<Rightarrow> bool" where
  "mime_token_char c =
     (c \<in> set ''abcdefghijklmnopqrstuvwxyzABCDEFGHIJKLMNOPQRSTUVWXYZ0123456789!#$&-^_.+/'')"

definition declared_by_browser :: "file_object \<Rightarrow> bool" where
  "declared_by_browser f =
     (list_all mime_token_char (file_type f)
      \<and> (endsWith (file_name f) ''.eml'' \<or> endsWith (file_name f) ''.txt''
           \<longrightarrow> file_type f \<in> set [[], ''text/plain'', ''message/rfc822'']))"

section \<open>Sample inputs\<close>

definition sample_analysis :: js where
  "sample_analysis =
     JObj [(''verdict'', JStr ''Malicious''),
           (''confidence_score'', JNum 97),
           (''simple_analysis'', JObj [(''explanation'', JStr ''This message is a trap.'')]),
           (''recommendations'',
              JObj [(''do'', JArr [JStr ''Report it'']),
                    (''dont'', JArr [JStr ''Click the link''])]),
           (''expert_analysis'',
              JObj [(''technical_summary'', JStr ''Spoofed sender.''),
                    (''mitre_attack_ids'', JArr [JStr ''T1566'']),
                    (''spf_dkim_dmarc_status'', JStr ''SPF fail'')]),
           (''sender_metadata'',
              JObj [(''ip_address'', JStr ''203.0.113.7''),
                    (''estimated_country'', JStr ''N/A''),
                    (''is_vpn_or_proxy'', JBool True)]),
           (''headers'',
              JObj [(''from'', JStr ''it@example.com''),
                    (''return_path'', JStr ''x@example.net''),
                    (''subject'', JStr ''Reset your password'')]),
           (''red_flags'', JArr [JStr ''Urgency'']),
           (''attacker_replication_code'', JStr ''print(1)'')]"

definition sample_reply_text :: string where
  \<open>sample_reply_text =
     ''{"verdict":"Malicious","confidence_score":97,''
     @ ''"simple_analysis":{"explanation":"This message is a trap."},''
     @ ''"recommendations":{"do":["Report it"],"dont":["Click the link"]},''
     @ ''"expert_analysis":{"technical_summary":"Spoofed sender.",''
     @ ''"mitre_attack_ids":["T1566"],"spf_dkim_dmarc_status":"SPF fail"},''
     @ ''"sender_metadata":{"ip_address":"203.0.113.7","estimated_country":"N/A",''
     @ ''"is_vpn_or_proxy":true},''
     @ ''"headers":{"from":"it@example.com","return_path":"x@example.net",''
     @ ''"subject":"Reset your password"},''
     @ ''"red_flags":["Urgency"],"attacker_replication_code":"print(1)"}''\<close>

text \<open>
  \<^verbatim>\<open>JSON.parse\<close> on the texts used below: the sample reply, the JSON text \<^verbatim>\<open>0\<close>, and
  texts that are not JSON.
\<close>

definition sample_parse :: "string \<Rightarrow> js option" where
  "sample_parse text =
     (if text = sample_reply_text then Some sample_analysis
      else if text = ''0'' then Some (JNum 0)
      else None)"

definition service_zero :: "payload \<Rightarrow> reply" where
  "service_zero contents = Replied (Some ''0'')"

definition service_silent :: "payload \<Rightarrow> reply" where
  "service_silent contents = Replied None"

definition service_garbled :: "payload \<Rightarrow> reply" where
  "service_garbled contents = Replied (Some ''Sorry, I cannot help with that.'')"

definition service_answering :: "payload \<Rightarrow> reply" where
  "service_answering contents = Replied (Some sample_reply_text)"

text \<open>The state of \<^verbatim>\<open>App\<close> after \<^verbatim>\<open>a.eml\<close> was loaded and analysed.\<close>

definition analysed_state :: app_state where
  "analysed_state =
     \<lparr> fileContent = Some ''Subject: test'', fileMimeType = Some ''text/plain'',
       fileName = Some ''a.eml'', analysis = sample_analysis, isLoading = False,
       error = None, isAnalystMode = True, showQuiz = False \<rparr>"

definition loaded_state :: app_state where
  "loaded_state = analysed_state\<lparr> analysis := JNull \<rparr>"

text \<open>
  A session: \<^verbatim>\<open>mail.eml\<close> is dropped on the fresh page and analysed, and the service
  replies with the JSON text \<^verbatim>\<open>0\<close>.
\<close>

definition mail_plain :: file_object where
  "mail_plain =
     \<lparr> file_name = ''mail.eml'', file_type = ''text/plain'', file_text = ''Subject: test'',
       file_base64 = ''U3ViamVjdDogdGVzdA=='', readable = True \<rparr>"

definition zero_state :: app_state where
  "zero_state = analyzeEmail sample_parse service_zero (upload mail_plain App_init)"

definition sample_page :: page where
  "sample_page =
     \<lparr> app = analysed_state, threat_map = ThreatMap_init, console = [], fetched = [] \<rparr>"

definition sample_quiz :: quiz_state where
  "sample_quiz =
     \<lparr> quizData = JObj [(''is_phishing'', JBool True), (''sender'', JStr ''bank@example.com''),
                        (''subject'', JStr ''Verify now''), (''body'', JStr ''Click here''),
                        (''clues'', JStr ''Urgent tone'')],
       quiz_loading = False, result = None, score = 3 \<rparr>"

definition geo_down :: "string \<Rightarrow> fetch_outcome" where
  "geo_down url = NetworkError"

text \<open>The geolocation service's answer, with status 200, for a reserved address.\<close>

definition geo_reserved :: "string \<Rightarrow> fetch_outcome" where
  "geo_reserved url =
     HttpResponse True
       (Some (JObj [(''ip'', JStr ''10.0.0.5''), (''error'', JBool True),
                    (''reason'', JStr ''Reserved IP Address'')]))"

definition geo_equator :: "string \<Rightarrow> fetch_outcome" where
  "geo_equator url =
     HttpResponse True
       (Some (JObj [(''latitude'', JNum 0), (''longitude'', JNum 32.58),
                    (''city'', JStr ''Kampala''), (''country_code'', JStr ''UG'')]))"

definition geo_found :: "string \<Rightarrow> fetch_outcome" where
  "geo_found url =
     HttpResponse True
       (Some (JObj [(''latitude'', JNum 52.52), (''longitude'', JNum 13.4),
                    (''city'', JStr ''Berlin''), (''country_code'', JStr ''DE'')]))"

definition mail_upper :: file_object where
  "mail_upper =
     \<lparr> file_name = ''MAIL.EML'', file_type = ''message/rfc822'',
       file_text = ''Subject: test'', file_base64 = ''U3ViamVjdDogdGVzdA=='',
       readable = True \<rparr>"

definition notes_as_pdf :: file_object where
  "notes_as_pdf =
     \<lparr> file_name = ''notes.txt'', file_type = ''application/pdf'',
       file_text = ''Hello, world, bye'', file_base64 = ''SGVsbG8sIHdvcmxkLCBieWU='',
       readable = True \<rparr>"

definition invoice_pdf :: file_object where
  "invoice_pdf =
     \<lparr> file_name = ''invoice.pdf'', file_type = ''application/pdf'',
       file_text = ''%PDF-1.4'', file_base64 = ''JVBERi0xLjQ='', readable = True \<rparr>"

definition mail_untyped :: file_object where
  "mail_untyped =
     \<lparr> file_name = ''mail.eml'', file_type = [], file_text = ''Subject: test'',
       file_base64 = ''U3ViamVjdDogdGVzdA=='', readable = True \<rparr>"

definition voice_untyped :: file_object where
  "voice_untyped =
     \<lparr> file_name = ''voice.mp3'', file_type = [], file_text = ''ID3'',
       file_base64 = ''SUQz'', readable = True \<rparr>"

section \<open>Properties of the helpers\<close>

lemma js_split_no_sep: "c \<notin> set s \<Longrightarrow> js_split c s = [s]"
  by (induction s) auto

lemma js_split_at_sep: "c \<notin> set h \<Longrightarrow> js_split c (h @ c # t) = h # js_split c t"
  by (induction h) auto

lemma js_split_second:
  "c \<notin> set h \<Longrightarrow> c \<notin> set t \<Longrightarrow> at_index (js_split c (h @ c # t)) 1 = Some t"
  by (simp add: js_split_at_sep js_split_no_sep at_index_def)

lemma base64_text_no_comma: "base64_text s \<Longrightarrow> CHR '','' \<notin> set s"
  by (induction s) (auto simp: base64_text_def)

lemma mime_token_no_comma: "list_all mime_token_char t \<Longrightarrow> CHR '','' \<notin> set t"
  by (induction t) (auto simp: mime_token_char_def)

lemma conforms_defined: "conforms sch v \<Longrightarrow> v \<noteq> JUndefined"
  by (cases sch) auto

lemma conforms_required:
  assumes "conforms (OBJECT properties required) v"
    and "k \<in> set required" and "(k, sch) \<in> set properties"
  shows "get_prop v k \<noteq> JUndefined"
proof (cases v)
  case (JObj kvs)
  from assms(1,2) obtain x where x: "map_of kvs k = Some x"
    by (auto simp: JObj list_all_iff)
  with assms(1,3) have "conforms sch x"
    by (auto simp: JObj list_all_iff)
  then have "x \<noteq> JUndefined"
    by (rule conforms_defined)
  with x show ?thesis
    by (simp add: JObj)
qed (use assms(1) in simp_all)

lemma analysisSchema_required:
  assumes "k \<in> set [''verdict'', ''confidence_score'', ''simple_analysis'',
                      ''recommendations'', ''expert_analysis'', ''sender_metadata'',
                      ''headers'', ''red_flags'', ''attacker_replication_code'']"
  shows "\<exists>properties required sch.
           analysisSchema = OBJECT properties required
           \<and> k \<in> set required \<and> (k, sch) \<in> set properties"
  using assms unfolding analysisSchema_def by fastforce

lemma sample_conforms: "conforms analysisSchema sample_analysis"
  by (simp add: analysisSchema_def sample_analysis_def)

section \<open>The content dispatcher\<close>

text \<open>What a readable file leaves in the state: its content and its MIME type.\<close>

lemma upload_text:
  assumes "readable f"
    and "endsWith (file_name f) ''.eml'' \<or> endsWith (file_name f) ''.txt''
         \<or> file_type f = ''text/plain''"
  shows "fileContent (upload f s) = Some (file_text f)"
  using assms
  by (auto simp: upload_def processFile_def readAsText_def handleFileLoaded_def)

lemma upload_binary:
  assumes "readable f"
    and "\<not> endsWith (file_name f) ''.eml''" and "\<not> endsWith (file_name f) ''.txt''"
    and "file_type f \<noteq> ''text/plain''" and "file_type f \<noteq> []"
  shows "fileContent (upload f s) = Some (''data:'' @ file_type f @ '';base64,'' @ file_base64 f)"
  using assms
  by (simp add: upload_def processFile_def readAsDataURL_def handleFileLoaded_def)

lemma upload_mime:
  assumes "readable f"
  shows "fileMimeType (upload f s) =
         Some (if file_type f \<noteq> [] then file_type f
               else if endsWith (file_name f) ''.eml'' \<or> endsWith (file_name f) ''.txt''
               then ''text/plain'' else ''application/octet-stream'')"
  using assms
  by (auto simp: upload_def processFile_def readAsText_def readAsDataURL_def
      handleFileLoaded_def)

text \<open>
  A file declared as \<^verbatim>\<open>text/plain\<close> is submitted as its decoded text, whatever its name;
  so is a file declared as \<^verbatim>\<open>message/rfc822\<close> whose name ends in \<^verbatim>\<open>.eml\<close> or
  \<^verbatim>\<open>.txt\<close>. An empty text is not submitted at all.
\<close>

lemma text_plain_payload:
  assumes "readable f" and "file_type f = ''text/plain''"
  shows "submitted (upload f s) =
         (if file_text f = [] then None else Some (TextContents (file_text f)))"
  using assms upload_text [of f s] upload_mime [of f s]
  by (simp add: submitted_def contentsPayload_def)

lemma rfc822_text_suffix_payload:
  assumes "readable f" and "file_type f = ''message/rfc822''"
    and "endsWith (file_name f) ''.eml'' \<or> endsWith (file_name f) ''.txt''"
  shows "submitted (upload f s) =
         (if file_text f = [] then None else Some (TextContents (file_text f)))"
  using assms upload_text [of f s] upload_mime [of f s]
  by (simp add: submitted_def contentsPayload_def)

text \<open>
  Claim C2 says that every file declared as plain text or as an email message is submitted
  as its literal decoded text, with no base64 transformation. The file \<^verbatim>\<open>MAIL.EML\<close>,
  declared as \<^verbatim>\<open>message/rfc822\<close> and holding the text \<^verbatim>\<open>Subject: test\<close>, is read as a
  data URL, because \<^verbatim>\<open>processFile\<close> tests only the two lower-case suffixes and the type
  \<^verbatim>\<open>text/plain\<close>; \<^verbatim>\<open>analyzeEmail\<close> then takes the text branch for \<^verbatim>\<open>message/rfc822\<close>
  and submits the data URL, base64 included, as if it were the text.
\<close>

theorem rfc822_without_text_suffix_payload:
  "submitted (upload mail_upper App_init)
   = Some (TextContents ''data:message/rfc822;base64,U3ViamVjdDogdGVzdA=='')
   \<and> file_type mail_upper = ''message/rfc822''
   \<and> submitted (upload mail_upper App_init) \<noteq> Some (TextContents (file_text mail_upper))"
  by (simp add: submitted_def upload_def processFile_def readAsDataURL_def readAsText_def
      handleFileLoaded_def contentsPayload_def endsWith_def App_init_def mail_upper_def)

text \<open>
  Claim C3: for every file that loads and that the browser declares with a MIME type other
  than \<^verbatim>\<open>text/plain\<close> and \<^verbatim>\<open>message/rfc822\<close>, the loaded content is the data URL of the
  file, and the request carries exactly the base64 payload that follows the header
  \<^verbatim>\<open>data:<type>;base64,\<close>, as inline data tagged with the file's own type.
\<close>

theorem binary_payload:
  assumes "readable f" and "base64_text (file_base64 f)"
    and "declared_by_browser f"
    and "file_type f \<noteq> []" and "file_type f \<noteq> ''text/plain''"
    and "file_type f \<noteq> ''message/rfc822''"
  shows "fileContent (upload f s)
           = Some (''data:'' @ file_type f @ '';base64,'' @ file_base64 f)
         \<and> submitted (upload f s)
           = Some (InlineData (file_type f) (Some (file_base64 f)))"
proof -
  let ?header = "''data:'' @ file_type f @ '';base64''"
  have name: "\<not> endsWith (file_name f) ''.eml''" "\<not> endsWith (file_name f) ''.txt''"
    using assms(3-6) by (auto simp: declared_by_browser_def)
  have content: "fileContent (upload f s) = Some (?header @ CHR '','' # file_base64 f)"
    using assms name upload_binary [of f s] by simp
  have mime: "fileMimeType (upload f s) = Some (file_type f)"
    using assms upload_mime [of f s] by simp
  have "CHR '','' \<notin> set (file_type f)"
    using assms(3) by (simp add: declared_by_browser_def mime_token_no_comma)
  then have "CHR '','' \<notin> set ?header"
    by simp
  moreover have "CHR '','' \<notin> set (file_base64 f)"
    using assms by (simp add: base64_text_no_comma)
  ultimately have "at_index (js_split CHR '','' (?header @ CHR '','' # file_base64 f)) 1
                   = Some (file_base64 f)"
    by (rule js_split_second)
  with content mime assms show ?thesis
    by (simp add: submitted_def contentsPayload_def)
qed

theorem binary_payload_witness:
  "fileContent (upload invoice_pdf App_init) = Some ''data:application/pdf;base64,JVBERi0xLjQ=''
   \<and> submitted (upload invoice_pdf App_init)
       = Some (InlineData ''application/pdf'' (Some ''JVBERi0xLjQ=''))"
  using binary_payload [of invoice_pdf App_init]
  by (simp add: invoice_pdf_def base64_text_def endsWith_def declared_by_browser_def
      mime_token_char_def)

text \<open>
  The browser's declaration matters. A \<^verbatim>\<open>File\<close> object that a script builds with the
  name \<^verbatim>\<open>notes.txt\<close> and the type \<^verbatim>\<open>application/pdf\<close> is read as text because of its
  name and dispatched as binary because of its type: the request then carries the piece
  of the text between its first two commas.
\<close>

lemma scripted_file_payload:
  "\<not> declared_by_browser notes_as_pdf
   \<and> fileContent (upload notes_as_pdf App_init) = Some ''Hello, world, bye''
   \<and> submitted (upload notes_as_pdf App_init)
       = Some (InlineData ''application/pdf'' (Some '' world''))"
  by (simp add: submitted_def upload_def processFile_def readAsDataURL_def readAsText_def
      handleFileLoaded_def contentsPayload_def endsWith_def App_init_def at_index_def
      notes_as_pdf_def declared_by_browser_def)

text \<open>
  Claim C4: for every uploaded file whose declared type is empty, the MIME type recorded
  for dispatch is \<^verbatim>\<open>text/plain\<close> exactly when the file name ends in \<^verbatim>\<open>.eml\<close> or
  \<^verbatim>\<open>.txt\<close>, and \<^verbatim>\<open>application/octet-stream\<close> otherwise.
\<close>

theorem missing_type_recorded_mime:
  assumes "file_type f = []" and "readable f"
  shows "fileMimeType (upload f s) =
         Some (if endsWith (file_name f) ''.eml'' \<or> endsWith (file_name f) ''.txt''
               then ''text/plain'' else ''application/octet-stream'')"
  using assms
  by (auto simp: upload_def processFile_def readAsText_def readAsDataURL_def
      handleFileLoaded_def)

theorem missing_type_recorded_mime_witness:
  "fileMimeType (upload mail_untyped App_init) = Some ''text/plain''
   \<and> fileMimeType (upload voice_untyped App_init) = Some ''application/octet-stream''"
  using missing_type_recorded_mime [of mail_untyped App_init]
    missing_type_recorded_mime [of voice_untyped App_init]
  by (simp add: mail_untyped_def voice_untyped_def endsWith_def)

text \<open>
  Claim C8: a file whose name ends in \<^verbatim>\<open>.eml\<close>, declared as \<^verbatim>\<open>text/plain\<close> and holding
  only the text \<^verbatim>\<open>Subject: test\<close>, is submitted as the literal string
  \<^verbatim>\<open>Subject: test\<close>, in the text form of the payload.
\<close>

theorem eml_subject_test_payload:
  "submitted (upload \<lparr> file_name = n @ ''.eml'', file_type = ''text/plain'',
       file_text = ''Subject: test'', file_base64 = b, readable = True \<rparr> s)
   = Some (TextContents ''Subject: test'')"
  by (simp add: submitted_def upload_def processFile_def readAsText_def handleFileLoaded_def
      contentsPayload_def)

theorem eml_subject_test_payload_witness:
  "submitted (upload \<lparr> file_name = ''mail.eml'', file_type = ''text/plain'',
       file_text = ''Subject: test'', file_base64 = ''U3ViamVjdDogdGVzdA=='',
       readable = True \<rparr> App_init)
   = Some (TextContents ''Subject: test'')"
  using eml_subject_test_payload [of "''mail''" "''U3ViamVjdDogdGVzdA==''" App_init]
  by simp

section \<open>The reset action\<close>

text \<open>
  Claim C9: the reset action sets the analysis result, the file content and the file name
  to null and leaves the stored MIME type, the in-flight flag, the error message, the mode
  toggle and the quiz flag as they were.
\<close>

theorem reset_frame:
  "analysis (reset s) = JNull \<and> fileContent (reset s) = None \<and> fileName (reset s) = None
   \<and> fileMimeType (reset s) = fileMimeType s \<and> isLoading (reset s) = isLoading s
   \<and> error (reset s) = error s \<and> isAnalystMode (reset s) = isAnalystMode s
   \<and> showQuiz (reset s) = showQuiz s"
  by (simp add: reset_def)

theorem reset_frame_witness:
  "analysis (reset analysed_state) = JNull \<and> fileContent (reset analysed_state) = None
   \<and> fileName (reset analysed_state) = None
   \<and> fileMimeType (reset analysed_state) = Some ''text/plain''
   \<and> isAnalystMode (reset analysed_state)"
  using reset_frame [of analysed_state]
  by (simp add: analysed_state_def)

section \<open>The response binder\<close>

text \<open>
  Claim C1 as stated, that the analysis state bound before a submission is unchanged when
  the reply is empty, fails in a state the page reaches: \<^verbatim>\<open>mail.eml\<close> is analysed and the
  service replies \<^verbatim>\<open>0\<close>, which is JSON, so the number 0 is bound. It is falsy, so the
  button "Run Analysis" is still offered. The next submission gets an empty reply:
  \<^verbatim>\<open>analyzeEmail\<close> set the state to null before the request, and there it stays.
\<close>

theorem empty_reply_discards_bound_value_counterexample:
  "analysis zero_state = JNum 0
   \<and> run_analysis_offered zero_state
   \<and> submitted zero_state = Some (TextContents ''Subject: test'')
   \<and> reply_empty (service_silent (TextContents ''Subject: test''))
   \<and> analysis (analyzeEmail sample_parse service_silent zero_state) = JNull
   \<and> analysis (analyzeEmail sample_parse service_silent zero_state) \<noteq> analysis zero_state"
proof -
  have loaded: "upload mail_plain App_init
      = \<lparr> fileContent = Some ''Subject: test'', fileMimeType = Some ''text/plain'',
          fileName = Some ''mail.eml'', analysis = JNull, isLoading = False,
          error = None, isAnalystMode = False, showQuiz = False \<rparr>"
    by (simp add: upload_def processFile_def readAsText_def handleFileLoaded_def
        mail_plain_def endsWith_def App_init_def)
  have zero: "zero_state
      = \<lparr> fileContent = Some ''Subject: test'', fileMimeType = Some ''text/plain'',
          fileName = Some ''mail.eml'', analysis = JNum 0, isLoading = False,
          error = None, isAnalystMode = False, showQuiz = False \<rparr>"
    by (simp add: zero_state_def loaded analyzeEmail_def submitted_def contentsPayload_def
        parse_reply_def service_zero_def sample_parse_def sample_reply_text_def)
  show ?thesis
    by (simp add: zero run_analysis_offered_def submitted_def contentsPayload_def
        reply_empty_def service_silent_def analyzeEmail_def parse_reply_def)
qed

lemma parse_reply_fails:
  "reply_empty r \<or> reply_malformed parse r \<Longrightarrow> \<exists>e. parse_reply parse r = Inl e"
  by (auto simp: reply_empty_def reply_malformed_def parse_reply_def
      split: reply.splits option.splits)

text \<open>
  Claim C1, amended: for every submission that makes a request and whose reply is empty or
  fails deserialization, the analysis state is null when the submission completes, so a
  state that was null before is unchanged, while a value that an earlier reply had bound is
  replaced by null; the error indicator is the static failure message, the in-flight flag
  is off, and every other cell of the state is unchanged.
\<close>

theorem failed_submission_state:
  assumes "submitted s = Some contents"
    and "reply_empty (generateContent contents)
         \<or> reply_malformed parse (generateContent contents)"
  shows "analyzeEmail parse generateContent s
           = s\<lparr> analysis := JNull, error := Some analysis_failed, isLoading := False \<rparr>
         \<and> (analysis s = JNull
              \<longrightarrow> analysis (analyzeEmail parse generateContent s) = analysis s)"
proof -
  obtain e where "parse_reply parse (generateContent contents) = Inl e"
    using assms(2) parse_reply_fails by blast
  with assms(1) show ?thesis
    by (simp add: analyzeEmail_def)
qed

theorem failed_submission_state_witness:
  "analyzeEmail sample_parse service_garbled loaded_state
     = loaded_state\<lparr> error := Some analysis_failed \<rparr>
   \<and> analysis (analyzeEmail sample_parse service_garbled loaded_state) = analysis loaded_state
   \<and> analysis (analyzeEmail sample_parse service_silent zero_state) = JNull
   \<and> error (analyzeEmail sample_parse service_silent zero_state) = Some analysis_failed"
proof -
  have a: "submitted zero_state = Some (TextContents ''Subject: test'')"
    by (simp add: zero_state_def analyzeEmail_def submitted_def contentsPayload_def
        parse_reply_def service_zero_def sample_parse_def sample_reply_text_def
        upload_def processFile_def readAsText_def handleFileLoaded_def
        mail_plain_def endsWith_def App_init_def)
  have b: "submitted loaded_state = Some (TextContents ''Subject: test'')"
    by (simp add: submitted_def loaded_state_def analysed_state_def contentsPayload_def)
  have c: "reply_empty (service_silent (TextContents ''Subject: test''))"
    by (simp add: reply_empty_def service_silent_def)
  have d: "reply_malformed sample_parse (service_garbled (TextContents ''Subject: test''))"
    by (simp add: reply_malformed_def service_garbled_def sample_parse_def
        sample_reply_text_def)
  have null: "analysis loaded_state = JNull"
    by (simp add: loaded_state_def)
  have idle: "loaded_state\<lparr> analysis := JNull, error := Some analysis_failed,
                           isLoading := False \<rparr>
              = loaded_state\<lparr> error := Some analysis_failed \<rparr>"
    by (simp add: loaded_state_def analysed_state_def)
  show ?thesis
    using failed_submission_state [OF a, of service_silent sample_parse]
      failed_submission_state [OF b, of service_garbled sample_parse] c d null idle
    by simp
qed

text \<open>
  Claim C6: when a request is made, the reply has a non-empty text and the text
  deserializes to a value that matches the analysis schema, the bound analysis result is
  that value itself and no error is set; each of the nine top-level fields is present in
  the view state under its own name, with the value the reply gave it.
\<close>

theorem wellformed_reply_bound:
  assumes "submitted s = Some contents"
    and "generateContent contents = Replied (Some text)" and "text \<noteq> []"
    and "parse text = Some v" and "conforms analysisSchema v"
  shows "analysis (analyzeEmail parse generateContent s) = v
         \<and> error (analyzeEmail parse generateContent s) = None
         \<and> (\<forall>k \<in> set [''verdict'', ''confidence_score'', ''simple_analysis'',
                        ''recommendations'', ''expert_analysis'', ''sender_metadata'',
                        ''headers'', ''red_flags'', ''attacker_replication_code''].
              get_prop (analysis (analyzeEmail parse generateContent s)) k = get_prop v k
              \<and> get_prop (analysis (analyzeEmail parse generateContent s)) k \<noteq> JUndefined)"
proof -
  have bound: "analysis (analyzeEmail parse generateContent s) = v"
    using assms(1-4) by (simp add: analyzeEmail_def parse_reply_def)
  have err: "error (analyzeEmail parse generateContent s) = None"
    using assms(1-4) by (simp add: analyzeEmail_def parse_reply_def)
  have present: "get_prop v k \<noteq> JUndefined"
    if key: "k \<in> set [''verdict'', ''confidence_score'', ''simple_analysis'',
                  ''recommendations'', ''expert_analysis'', ''sender_metadata'',
                  ''headers'', ''red_flags'', ''attacker_replication_code'']" for k
  proof -
    obtain properties required sch where "analysisSchema = OBJECT properties required"
      and "k \<in> set required" and "(k, sch) \<in> set properties"
      using analysisSchema_required [OF key] by blast
    with assms(5) show ?thesis
      using conforms_required by metis
  qed
  show ?thesis
    using bound err present by blast
qed

theorem wellformed_reply_bound_witness:
  "analysis (analyzeEmail sample_parse service_answering loaded_state) = sample_analysis
   \<and> get_prop (analysis (analyzeEmail sample_parse service_answering loaded_state)) ''verdict''
       = JStr ''Malicious''
   \<and> get_prop (analysis (analyzeEmail sample_parse service_answering loaded_state))
        ''attacker_replication_code'' = JStr ''print(1)''"
proof -
  have a: "submitted loaded_state = Some (TextContents ''Subject: test'')"
    by (simp add: submitted_def loaded_state_def analysed_state_def contentsPayload_def)
  have b: "service_answering (TextContents ''Subject: test'') = Replied (Some sample_reply_text)"
    by (simp add: service_answering_def)
  have c: "sample_reply_text \<noteq> []"
    by (simp add: sample_reply_text_def)
  have d: "sample_parse sample_reply_text = Some sample_analysis"
    by (simp add: sample_parse_def)
  have e: "conforms analysisSchema sample_analysis"
    by (rule sample_conforms)
  have "analysis (analyzeEmail sample_parse service_answering loaded_state) = sample_analysis"
    using wellformed_reply_bound [of loaded_state "TextContents ''Subject: test''"
        service_answering sample_reply_text sample_parse sample_analysis] a b c d e
    by blast
  then show ?thesis
    by (simp add: sample_analysis_def)
qed

section \<open>The quiz round\<close>

text \<open>
  Claim C5: for every loaded scenario and every guess, the round is judged correct exactly
  when the boolean guess strictly equals the scenario's \<^verbatim>\<open>is_phishing\<close>; the score grows
  by exactly one in that case and is unchanged otherwise.
\<close>

theorem handleGuess_judgement:
  assumes "truthy (quizData q)"
  shows "result (handleGuess g q)
           = Some (if JBool g = get_prop (quizData q) ''is_phishing'' then Correct else Wrong)
         \<and> score (handleGuess g q)
           = (if JBool g = get_prop (quizData q) ''is_phishing'' then score q + 1 else score q)
         \<and> quizData (handleGuess g q) = quizData q"
  using assms by (simp add: handleGuess_def Let_def)

theorem handleGuess_judgement_witness:
  "result (handleGuess True sample_quiz) = Some Correct
   \<and> score (handleGuess True sample_quiz) = 4
   \<and> result (handleGuess False sample_quiz) = Some Wrong
   \<and> score (handleGuess False sample_quiz) = 3"
  using handleGuess_judgement [of sample_quiz True] handleGuess_judgement [of sample_quiz False]
  by (simp add: sample_quiz_def)

section \<open>The geolocation lookup\<close>

lemma fetchGeo_try_throws:
  "lookup_throws outcome \<Longrightarrow> \<exists>e. fetchGeo_try outcome t = Inl e"
  by (auto simp: lookup_throws_def fetchGeo_try_def split: fetch_outcome.splits)

lemma fetchGeo_try_refuses:
  "lookup_fails outcome \<Longrightarrow> \<not> lookup_throws outcome \<Longrightarrow> fetchGeo_try outcome t = Inr t"
  by (auto simp: lookup_fails_def lookup_throws_def fetchGeo_try_def
      split: fetch_outcome.splits option.splits)

lemma lookup_throws_fails: "lookup_throws outcome \<Longrightarrow> lookup_fails outcome"
  by (auto simp: lookup_fails_def lookup_throws_def split: fetch_outcome.splits option.splits)

lemma fetchGeo_app: "app (fetchGeo fetch ip p) = app p"
  by (simp add: fetchGeo_def Let_def split: sum.splits)

lemma ThreatMap_effect_app: "app (ThreatMap_effect fetch ip p) = app p"
  by (simp add: ThreatMap_effect_def fetchGeo_app)

lemma fetchGeo_thrown:
  assumes "fetchGeo_try (fetch (''https://ipapi.co/'' @ ip @ ''/json/''))
             ((threat_map p)\<lparr> geo_loading := True \<rparr>) = Inl e"
  shows "fetchGeo fetch ip p
         = p\<lparr> threat_map := (threat_map p)\<lparr> geo_loading := False \<rparr>,
              console := console p @ [(''Geo fetch failed'', e)],
              fetched := fetched p @ [''https://ipapi.co/'' @ ip @ ''/json/''] \<rparr>"
  using assms by (simp add: fetchGeo_def Let_def)

lemma fetchGeo_not_accepted:
  assumes "fetchGeo_try (fetch (''https://ipapi.co/'' @ ip @ ''/json/''))
             ((threat_map p)\<lparr> geo_loading := True \<rparr>)
           = Inr ((threat_map p)\<lparr> geo_loading := True \<rparr>)"
  shows "fetchGeo fetch ip p
         = p\<lparr> threat_map := (threat_map p)\<lparr> geo_loading := False \<rparr>,
              fetched := fetched p @ [''https://ipapi.co/'' @ ip @ ''/json/''] \<rparr>"
  using assms by (simp add: fetchGeo_def Let_def)

lemma fetchGeo_try_zero:
  assumes "get_prop data ''latitude'' = JNum 0 \<or> get_prop data ''longitude'' = JNum 0"
  shows "fetchGeo_try (HttpResponse True (Some data)) t = Inr t"
  using assms by (cases data) (auto simp: fetchGeo_try_def)

lemma fetchGeo_try_accepts:
  assumes "fetchGeo_try outcome t = Inr t'" and "geoData t' \<noteq> geoData t"
  shows "\<exists>data. outcome = HttpResponse True (Some data)
           \<and> truthy (get_prop data ''latitude'') \<and> truthy (get_prop data ''longitude'')
           \<and> geoData t' = data"
  using assms
  by (auto simp: fetchGeo_try_def split: fetch_outcome.splits option.splits if_splits)

text \<open>
  Claim C7 as stated, that every failed lookup is logged before it is swallowed, fails for
  an unusable body that is JSON: for the reserved address \<^verbatim>\<open>10.0.0.5\<close> the service answers
  with status 200 and an error object without coordinates. The lookup is issued, no
  location is bound, and nothing is written to the console.
\<close>

theorem unusable_json_body_not_logged_counterexample:
  "lookup_fails (geo_reserved ''https://ipapi.co/10.0.0.5/json/'')
   \<and> fetched (ThreatMap_effect geo_reserved ''10.0.0.5'' sample_page)
       = [''https://ipapi.co/10.0.0.5/json/'']
   \<and> geoData (threat_map (ThreatMap_effect geo_reserved ''10.0.0.5'' sample_page)) = JNull
   \<and> console (ThreatMap_effect geo_reserved ''10.0.0.5'' sample_page) = []"
  by (simp add: lookup_fails_def geo_reserved_def ThreatMap_effect_def fetchGeo_def
      fetchGeo_try_def Let_def sample_page_def ThreatMap_init_def)

text \<open>
  Claim C7, amended: when a lookup is issued and fails (the network rejects it, the
  response is not ok, or the body is unusable), nothing is thrown to the caller: the state
  of \<^verbatim>\<open>App\<close>, and the analysis result in it, is unchanged, no location is bound, the
  loading flag is off, and the map of the mounted component is centred at [20, 0] with
  zoom 2. The failure is logged when the \<^verbatim>\<open>try\<close> block throws (rejection, response not
  ok, body that is not JSON or is null); a JSON body without usable coordinates is
  dropped without a log line.
\<close>

theorem geolocation_failure_swallowed:
  assumes "ip \<noteq> []" and "ip \<noteq> ''N/A''" and "ip \<noteq> ''127.0.0.1''"
    and "lookup_fails (fetch (''https://ipapi.co/'' @ ip @ ''/json/''))"
  shows "app (ThreatMap_effect fetch ip p) = app p
         \<and> geoData (threat_map (ThreatMap_effect fetch ip p)) = geoData (threat_map p)
         \<and> geo_loading (threat_map (ThreatMap_effect fetch ip p)) = False
         \<and> (lookup_throws (fetch (''https://ipapi.co/'' @ ip @ ''/json/''))
              \<longrightarrow> (\<exists>e. console (ThreatMap_effect fetch ip p)
                         = console p @ [(''Geo fetch failed'', e)]))
         \<and> (\<not> lookup_throws (fetch (''https://ipapi.co/'' @ ip @ ''/json/''))
              \<longrightarrow> console (ThreatMap_effect fetch ip p) = console p)
         \<and> center (threat_map (ThreatMap_mount fetch ip p)) = (JNum 20, JNum 0)
         \<and> zoom (threat_map (ThreatMap_mount fetch ip p)) = 2"
proof -
  let ?url = "''https://ipapi.co/'' @ ip @ ''/json/''"
  have run: "\<exists>log. ThreatMap_effect fetch ip q
               = q\<lparr> threat_map := (threat_map q)\<lparr> geo_loading := False \<rparr>,
                    console := console q @ log,
                    fetched := fetched q @ [?url] \<rparr>
               \<and> (lookup_throws (fetch ?url) \<longrightarrow> (\<exists>e. log = [(''Geo fetch failed'', e)]))
               \<and> (\<not> lookup_throws (fetch ?url) \<longrightarrow> log = [])" for q :: page
  proof (cases "lookup_throws (fetch ?url)")
    case True
    then obtain e
      where "fetchGeo_try (fetch ?url) ((threat_map q)\<lparr> geo_loading := True \<rparr>) = Inl e"
      using fetchGeo_try_throws by blast
    then have "ThreatMap_effect fetch ip q
               = q\<lparr> threat_map := (threat_map q)\<lparr> geo_loading := False \<rparr>,
                    console := console q @ [(''Geo fetch failed'', e)],
                    fetched := fetched q @ [?url] \<rparr>"
      using assms(1-3) fetchGeo_thrown [of fetch ip q] by (simp add: ThreatMap_effect_def)
    with True show ?thesis by blast
  next
    case False
    then have "fetchGeo_try (fetch ?url) ((threat_map q)\<lparr> geo_loading := True \<rparr>)
               = Inr ((threat_map q)\<lparr> geo_loading := True \<rparr>)"
      using assms(4) fetchGeo_try_refuses by blast
    then have "ThreatMap_effect fetch ip q
               = q\<lparr> threat_map := (threat_map q)\<lparr> geo_loading := False \<rparr>,
                    console := console q @ [],
                    fetched := fetched q @ [?url] \<rparr>"
      using assms(1-3) fetchGeo_not_accepted [of fetch ip q]
      by (simp add: ThreatMap_effect_def)
    with False show ?thesis by blast
  qed
  obtain log where here: "ThreatMap_effect fetch ip p
      = p\<lparr> threat_map := (threat_map p)\<lparr> geo_loading := False \<rparr>,
           console := console p @ log,
           fetched := fetched p @ [?url] \<rparr>"
    and thrown: "lookup_throws (fetch ?url) \<longrightarrow> (\<exists>e. log = [(''Geo fetch failed'', e)])"
    and silent: "\<not> lookup_throws (fetch ?url) \<longrightarrow> log = []"
    using run [of p] by blast
  obtain log' where mount: "ThreatMap_mount fetch ip p
      = (p\<lparr> threat_map := ThreatMap_init \<rparr>)
          \<lparr> threat_map := ThreatMap_init\<lparr> geo_loading := False \<rparr>,
            console := console p @ log',
            fetched := fetched p @ [?url] \<rparr>"
    using run [of "p\<lparr> threat_map := ThreatMap_init \<rparr>"]
    by (auto simp: ThreatMap_mount_def)
  have "geoData (threat_map (ThreatMap_mount fetch ip p)) = JNull"
    by (simp add: mount ThreatMap_init_def)
  then have "center (threat_map (ThreatMap_mount fetch ip p)) = (JNum 20, JNum 0)"
    and "zoom (threat_map (ThreatMap_mount fetch ip p)) = 2"
    by (simp_all add: center_def zoom_def)
  moreover have "app (ThreatMap_effect fetch ip p) = app p"
    and "geoData (threat_map (ThreatMap_effect fetch ip p)) = geoData (threat_map p)"
    and "geo_loading (threat_map (ThreatMap_effect fetch ip p)) = False"
    and "console (ThreatMap_effect fetch ip p) = console p @ log"
    by (simp_all add: here)
  ultimately show ?thesis
    using thrown silent by auto
qed

theorem geolocation_failure_swallowed_witness:
  "app (ThreatMap_effect geo_down ''203.0.113.7'' sample_page) = analysed_state
   \<and> console (ThreatMap_effect geo_down ''203.0.113.7'' sample_page)
       = [(''Geo fetch failed'', TypeError)]
   \<and> center (threat_map (ThreatMap_mount geo_down ''203.0.113.7'' sample_page))
       = (JNum 20, JNum 0)
   \<and> zoom (threat_map (ThreatMap_mount geo_down ''203.0.113.7'' sample_page)) = 2
   \<and> app (ThreatMap_effect geo_reserved ''10.0.0.5'' sample_page) = analysed_state
   \<and> console (ThreatMap_effect geo_reserved ''10.0.0.5'' sample_page) = []
   \<and> center (threat_map (ThreatMap_mount geo_reserved ''10.0.0.5'' sample_page))
       = (JNum 20, JNum 0)
   \<and> zoom (threat_map (ThreatMap_mount geo_reserved ''10.0.0.5'' sample_page)) = 2"
proof -
  have down: "lookup_fails (geo_down (''https://ipapi.co/'' @ ''203.0.113.7'' @ ''/json/''))"
    "lookup_throws (geo_down (''https://ipapi.co/'' @ ''203.0.113.7'' @ ''/json/''))"
    by (simp_all add: lookup_fails_def lookup_throws_def geo_down_def)
  have reserved: "lookup_fails (geo_reserved (''https://ipapi.co/'' @ ''10.0.0.5'' @ ''/json/''))"
    "\<not> lookup_throws (geo_reserved (''https://ipapi.co/'' @ ''10.0.0.5'' @ ''/json/''))"
    by (simp_all add: lookup_fails_def lookup_throws_def geo_reserved_def)
  have first: "app (ThreatMap_effect geo_down ''203.0.113.7'' sample_page) = app sample_page
      \<and> center (threat_map (ThreatMap_mount geo_down ''203.0.113.7'' sample_page))
          = (JNum 20, JNum 0)
      \<and> zoom (threat_map (ThreatMap_mount geo_down ''203.0.113.7'' sample_page)) = 2"
    using geolocation_failure_swallowed [of "''203.0.113.7''" geo_down sample_page] down
    by simp
  have second: "app (ThreatMap_effect geo_reserved ''10.0.0.5'' sample_page) = app sample_page
      \<and> console (ThreatMap_effect geo_reserved ''10.0.0.5'' sample_page) = console sample_page
      \<and> center (threat_map (ThreatMap_mount geo_reserved ''10.0.0.5'' sample_page))
          = (JNum 20, JNum 0)
      \<and> zoom (threat_map (ThreatMap_mount geo_reserved ''10.0.0.5'' sample_page)) = 2"
    using geolocation_failure_swallowed [of "''10.0.0.5''" geo_reserved sample_page] reserved
    by simp
  have logged: "console (ThreatMap_effect geo_down ''203.0.113.7'' sample_page)
      = [(''Geo fetch failed'', TypeError)]"
    by (simp add: sample_page_def ThreatMap_effect_def fetchGeo_def fetchGeo_try_def
        geo_down_def Let_def)
  from first second logged show ?thesis
    by (simp add: sample_page_def)
qed

text \<open>
  Claim C10: no lookup is issued, and nothing changes, when the IP string is empty,
  \<^verbatim>\<open>N/A\<close> or \<^verbatim>\<open>127.0.0.1\<close>; a location is bound only from an ok response whose
  latitude and longitude are both truthy; a response whose latitude or longitude is 0
  binds nothing, and the mounted map stays at the default centre [20, 0] and zoom 2.
\<close>

theorem geolocation_gate:
  "(ip = [] \<or> ip = ''N/A'' \<or> ip = ''127.0.0.1''
      \<longrightarrow> ThreatMap_effect fetch ip p = p)
   \<and> (geoData (threat_map (ThreatMap_effect fetch ip p)) \<noteq> geoData (threat_map p)
      \<longrightarrow> (\<exists>data. fetch (''https://ipapi.co/'' @ ip @ ''/json/'') = HttpResponse True (Some data)
             \<and> truthy (get_prop data ''latitude'') \<and> truthy (get_prop data ''longitude'')
             \<and> geoData (threat_map (ThreatMap_effect fetch ip p)) = data))
   \<and> (\<forall>data. fetch (''https://ipapi.co/'' @ ip @ ''/json/'') = HttpResponse True (Some data)
             \<and> (get_prop data ''latitude'' = JNum 0 \<or> get_prop data ''longitude'' = JNum 0)
      \<longrightarrow> geoData (threat_map (ThreatMap_effect fetch ip p)) = geoData (threat_map p)
          \<and> center (threat_map (ThreatMap_mount fetch ip p)) = (JNum 20, JNum 0)
          \<and> zoom (threat_map (ThreatMap_mount fetch ip p)) = 2)"
proof (intro conjI impI allI)
  assume "ip = [] \<or> ip = ''N/A'' \<or> ip = ''127.0.0.1''"
  then show "ThreatMap_effect fetch ip p = p"
    by (auto simp: ThreatMap_effect_def)
next
  let ?url = "''https://ipapi.co/'' @ ip @ ''/json/''"
  let ?t1 = "(threat_map p)\<lparr> geo_loading := True \<rparr>"
  assume changed: "geoData (threat_map (ThreatMap_effect fetch ip p)) \<noteq> geoData (threat_map p)"
  then have issued: "ThreatMap_effect fetch ip p = fetchGeo fetch ip p"
    by (auto simp: ThreatMap_effect_def split: if_splits)
  show "\<exists>data. fetch ?url = HttpResponse True (Some data)
          \<and> truthy (get_prop data ''latitude'') \<and> truthy (get_prop data ''longitude'')
          \<and> geoData (threat_map (ThreatMap_effect fetch ip p)) = data"
  proof (cases "fetchGeo_try (fetch ?url) ?t1")
    case (Inl e)
    then have "geoData (threat_map (fetchGeo fetch ip p)) = geoData (threat_map p)"
      by (simp add: fetchGeo_def Let_def)
    with changed issued show ?thesis by simp
  next
    case (Inr t2)
    then have after: "geoData (threat_map (fetchGeo fetch ip p)) = geoData t2"
      by (simp add: fetchGeo_def Let_def)
    with changed issued have "geoData t2 \<noteq> geoData ?t1" by simp
    with Inr after issued show ?thesis
      using fetchGeo_try_accepts [of "fetch ?url" ?t1 t2] by auto
  qed
next
  fix data
  let ?url = "''https://ipapi.co/'' @ ip @ ''/json/''"
  assume zero: "fetch ?url = HttpResponse True (Some data)
      \<and> (get_prop data ''latitude'' = JNum 0 \<or> get_prop data ''longitude'' = JNum 0)"
  then have unaccepted: "fetchGeo_try (fetch ?url) t = Inr t" for t
    using fetchGeo_try_zero [of data t] by simp
  have kept: "geoData (threat_map (ThreatMap_effect fetch ip q)) = geoData (threat_map q)"
    for q :: page
    using unaccepted [of "(threat_map q)\<lparr> geo_loading := True \<rparr>"] fetchGeo_not_accepted [of fetch ip q]
    by (simp add: ThreatMap_effect_def)
  show "geoData (threat_map (ThreatMap_effect fetch ip p)) = geoData (threat_map p)"
    by (rule kept)
  have "geoData (threat_map (ThreatMap_mount fetch ip p)) = JNull"
    using kept [of "p\<lparr> threat_map := ThreatMap_init \<rparr>"]
    by (simp add: ThreatMap_mount_def ThreatMap_init_def)
  then show "center (threat_map (ThreatMap_mount fetch ip p)) = (JNum 20, JNum 0)"
    and "zoom (threat_map (ThreatMap_mount fetch ip p)) = 2"
    by (simp_all add: center_def zoom_def)
qed

theorem geolocation_gate_witness:
  "ThreatMap_effect geo_found ''N/A'' sample_page = sample_page
   \<and> truthy (get_prop (geoData (threat_map (ThreatMap_effect geo_found ''203.0.113.7'' sample_page)))
        ''latitude'')
   \<and> geoData (threat_map (ThreatMap_effect geo_equator ''203.0.113.7'' sample_page)) = JNull
   \<and> center (threat_map (ThreatMap_mount geo_equator ''203.0.113.7'' sample_page))
       = (JNum 20, JNum 0)
   \<and> zoom (threat_map (ThreatMap_mount geo_equator ''203.0.113.7'' sample_page)) = 2"
proof -
  have changed: "geoData (threat_map (ThreatMap_effect geo_found ''203.0.113.7'' sample_page))
        \<noteq> geoData (threat_map sample_page)"
    by (simp add: ThreatMap_effect_def fetchGeo_def fetchGeo_try_def geo_found_def Let_def
        sample_page_def ThreatMap_init_def)
  have zero: "geo_equator (''https://ipapi.co/'' @ ''203.0.113.7'' @ ''/json/'')
        = HttpResponse True
            (Some (JObj [(''latitude'', JNum 0), (''longitude'', JNum 32.58),
                         (''city'', JStr ''Kampala''), (''country_code'', JStr ''UG'')]))
      \<and> (get_prop (JObj [(''latitude'', JNum 0), (''longitude'', JNum 32.58),
                         (''city'', JStr ''Kampala''), (''country_code'', JStr ''UG'')])
            ''latitude'' = JNum 0
          \<or> get_prop (JObj [(''latitude'', JNum 0), (''longitude'', JNum 32.58),
                         (''city'', JStr ''Kampala''), (''country_code'', JStr ''UG'')])
            ''longitude'' = JNum 0)"
    by (simp add: geo_equator_def)
  have skip: "ThreatMap_effect geo_found ''N/A'' sample_page = sample_page"
    using geolocation_gate [of "''N/A''" geo_found sample_page] by simp
  have found: "truthy (get_prop
      (geoData (threat_map (ThreatMap_effect geo_found ''203.0.113.7'' sample_page))) ''latitude'')"
    using geolocation_gate [of "''203.0.113.7''" geo_found sample_page] changed by auto
  have "geoData (threat_map (ThreatMap_effect geo_equator ''203.0.113.7'' sample_page))
          = geoData (threat_map sample_page)
        \<and> center (threat_map (ThreatMap_mount geo_equator ''203.0.113.7'' sample_page))
          = (JNum 20, JNum 0)
        \<and> zoom (threat_map (ThreatMap_mount geo_equator ''203.0.113.7'' sample_page)) = 2"
    using geolocation_gate [of "''203.0.113.7''" geo_equator sample_page] zero by blast
  with skip found show ?thesis
    by (simp add: sample_page_def ThreatMap_init_def)
qed

end
